theory Spec2Isabelle
  imports Main "HOL-Library.Sublist"
begin

section \<open>JavaScript values used by the configuration modules\<close>

text \<open>
  A JavaScript string is modelled as a \<^typ>\<open>string\<close>; every \<^typ>\<open>char\<close> stands for the
  UTF-16 code unit of the same number, so the model covers the strings whose code units
  are below 256. A value that is a string or \<^verbatim>\<open>undefined\<close>/\<^verbatim>\<open>null\<close> is a
  \<^typ>\<open>string option\<close>, \<^term>\<open>None\<close> being the absent value.

  \<^verbatim>\<open>import.meta.env.VITE_API_URL\<close> is such a value: \<^term>\<open>None\<close> when the variable is
  unset, \<^term>\<open>Some []\<close> when it is set to the empty string.
\<close>

type_synonym env = "string option"

text \<open>\<^verbatim>\<open>!v\<close> for a string or absent value: absent and the empty string are falsy.\<close>

definition falsy :: "string option \<Rightarrow> bool" where
  "falsy v = (case v of None \<Rightarrow> True | Some s \<Rightarrow> s = [])"

text \<open>\<^verbatim>\<open>v || d\<close> where \<^verbatim>\<open>d\<close> is a string.\<close>

definition or_else :: "string option \<Rightarrow> string \<Rightarrow> string" where
  "or_else v d = (case v of None \<Rightarrow> d | Some s \<Rightarrow> if s = [] then d else s)"

text \<open>\<^verbatim>\<open>s.startsWith(p)\<close>.\<close>

definition startsWith :: "string \<Rightarrow> string \<Rightarrow> bool" where
  "startsWith s p = prefix p s"

section \<open>config/api.js\<close>

text \<open>\<^verbatim>\<open>export const API_ROOT = import.meta.env.VITE_API_URL || '';\<close>\<close>

definition API_ROOT :: "env \<Rightarrow> string" where
  "API_ROOT e = or_else e ''''"


text \<open>
  The object \<^verbatim>\<open>API_ENDPOINTS\<close>, in the order of the source. A nested field is listed
  under its access path (\<^verbatim>\<open>API_ENDPOINTS.loans.personal\<close> under \<open>loans.personal\<close>).
\<close>

definition API_ENDPOINTS :: "env \<Rightarrow> (string \<times> string) list" where
  "API_ENDPOINTS e =
    [(''admin'', API_ROOT e @ ''/api/admin''),
     (''auth'', API_ROOT e @ ''/api/auth''),
     (''dashboard'', API_ROOT e @ ''/api/dashboard''),
     (''loans.personal'', API_ROOT e @ ''/api/personal-loan''),
     (''loans.home'', API_ROOT e @ ''/api/home-loan''),
     (''loans.business'', API_ROOT e @ ''/api/business-loan''),
     (''loans.shortTerm'', API_ROOT e @ ''/api/short-term-loan''),
     (''insurance.health'', API_ROOT e @ ''/api/health-insurance''),
     (''insurance.motor'', API_ROOT e @ ''/api/motor-insurance''),
     (''insurance.term'', API_ROOT e @ ''/api/term-insurance''),
     (''investments.sip'', API_ROOT e @ ''/api/sip''),
     (''investments.mutualFunds'', API_ROOT e @ ''/api/mutual-funds''),
     (''investments.management'', API_ROOT e @ ''/api/investment-management''),
     (''tax.personal'', API_ROOT e @ ''/api/personal-tax''),
     (''tax.business'', API_ROOT e @ ''/api/business-tax''),
     (''services.retail'', API_ROOT e @ ''/api/retail-services''),
     (''services.business'', API_ROOT e @ ''/api/business-services''),
     (''services.corporate'', API_ROOT e @ ''/api/corporate-services''),
     (''settings'', API_ROOT e @ ''/api/settings''),
     (''notifications'', API_ROOT e @ ''/api/notifications''),
     (''loanManagement'', API_ROOT e @ ''/api/loan-management'')]"

text \<open>
  \<^verbatim>\<open>baseUrl.replace(/^http/, 'ws')\<close>: the pattern is anchored at the start and not global,
  so the only possible match is the first four characters.
\<close>

definition replace_http_ws :: "string \<Rightarrow> string" where
  "replace_http_ws baseUrl =
     (if startsWith baseUrl ''http'' then ''ws'' @ drop 4 baseUrl else baseUrl)"

text \<open>
  \<^verbatim>\<open>const baseUrl = API_ROOT || 'http://localhost:8000';
  return baseUrl.replace(/^http/, 'ws');\<close>
\<close>

definition getWebSocketUrl :: "env \<Rightarrow> string" where
  "getWebSocketUrl e =
     (let baseUrl = or_else (Some (API_ROOT e)) ''http://localhost:8000''
      in replace_http_ws baseUrl)"

text \<open>The object \<^verbatim>\<open>WS_ENDPOINTS\<close>, with its one field \<^verbatim>\<open>adminDashboard\<close>.\<close>

definition WS_ENDPOINTS :: "env \<Rightarrow> (string \<times> string) list" where
  "WS_ENDPOINTS e = [(''adminDashboard'', getWebSocketUrl e @ ''/api/admin/ws/dashboard'')]"

section \<open>The two versions of config/api.config.js\<close>

text \<open>
  Both files export \<^verbatim>\<open>API_BASE_URL\<close>, \<^verbatim>\<open>API_ENDPOINT\<close> and \<^verbatim>\<open>getAssetUrl\<close>. The version
  that tells an unset variable from an empty one carries the suffix \<open>_strict\<close> here, the
  version that uses \<^verbatim>\<open>||\<close> the suffix \<open>_lax\<close>.

  \<^verbatim>\<open>export const API_BASE_URL = envApiUrl !== undefined ? envApiUrl : 'http://localhost:8000';\<close>
\<close>

definition API_BASE_URL_strict :: "env \<Rightarrow> string" where
  "API_BASE_URL_strict envApiUrl =
     (case envApiUrl of Some u \<Rightarrow> u | None \<Rightarrow> ''http://localhost:8000'')"

text \<open>\<^verbatim>\<open>export const API_BASE_URL = import.meta.env.VITE_API_URL || 'http://localhost:8000';\<close>\<close>

definition API_BASE_URL_lax :: "env \<Rightarrow> string" where
  "API_BASE_URL_lax e = or_else e ''http://localhost:8000''"

text \<open>\<^verbatim>\<open>export const API_ENDPOINT = `${API_BASE_URL}/api`;\<close> in either file.\<close>

definition API_ENDPOINT_strict :: "env \<Rightarrow> string" where
  "API_ENDPOINT_strict e = API_BASE_URL_strict e @ ''/api''"

definition API_ENDPOINT_lax :: "env \<Rightarrow> string" where
  "API_ENDPOINT_lax e = API_BASE_URL_lax e @ ''/api''"

text \<open>
  The body of \<^verbatim>\<open>getAssetUrl\<close> is the same in both files; it reads the module's
  \<^verbatim>\<open>API_BASE_URL\<close>, given here as the first argument. The path may be absent.
  \<^verbatim>\<open>
  if (!path) return '';
  if (path.startsWith('http://') || path.startsWith('https://')) return path;
  const normalizedPath = path.startsWith('/') ? path : `/${path}`;
  return `${API_BASE_URL}${normalizedPath}`;
  \<close>
\<close>

definition getAssetUrl :: "string \<Rightarrow> string option \<Rightarrow> string" where
  "getAssetUrl base path =
     (case path of
        None \<Rightarrow> ''''
      | Some p \<Rightarrow>
          if p = [] then ''''
          else if startsWith p ''http://'' \<or> startsWith p ''https://'' then p
          else (let normalizedPath = (if startsWith p ''/'' then p else ''/'' @ p)
                in base @ normalizedPath))"

definition getAssetUrl_strict :: "env \<Rightarrow> string option \<Rightarrow> string" where
  "getAssetUrl_strict e path = getAssetUrl (API_BASE_URL_strict e) path"

definition getAssetUrl_lax :: "env \<Rightarrow> string option \<Rightarrow> string" where
  "getAssetUrl_lax e path = getAssetUrl (API_BASE_URL_lax e) path"


section \<open>JSON.parse\<close>

text \<open>
  \<^verbatim>\<open>JSON.parse\<close> belongs to the platform, not to the repository. The access guard below
  takes the parser as an argument, so what is proved of the guard holds for every parser.
  \<^verbatim>\<open>JSON_parse\<close> is a reference parser for the JSON grammar of ECMA-404, used where a
  concrete profile text has to be parsed.

  A parsed string is a list of UTF-16 code units, because an escape \<^verbatim>\<open>\uXXXX\<close> can
  denote any of them. A number keeps its literal text: the guard only compares values
  with \<^verbatim>\<open>true\<close> and with a string, and no number is equal to either.
  The fields of an object are kept in the order of the text.
\<close>

datatype error = SyntaxError | TypeError

type_synonym units = "nat list"

definition utf16 :: "string \<Rightarrow> units" where
  "utf16 s = map of_char s"

datatype json =
    JNull
  | JBool bool
  | JNumber string
  | JString units
  | JArray "json list"
  | JObject "(units \<times> json) list"

definition is_ws :: "char \<Rightarrow> bool" where
  "is_ws c = (c = CHR '' '' \<or> c = CHR 0x09 \<or> c = CHR 0x0A \<or> c = CHR 0x0D)"

definition skip_ws :: "string \<Rightarrow> string" where
  "skip_ws s = dropWhile is_ws s"

definition is_digit :: "char \<Rightarrow> bool" where
  "is_digit c = (c \<in> set ''0123456789'')"

definition hex_value :: "char \<Rightarrow> nat option" where
  "hex_value c = map_of (zip ''0123456789abcdef'' [0 ..< 16] @ zip ''ABCDEF'' [10 ..< 16]) c"

definition hex4 :: "string \<Rightarrow> nat option" where
  "hex4 s =
     (case map hex_value s of
        [Some a, Some b, Some c, Some d] \<Rightarrow> Some (((a * 16 + b) * 16 + c) * 16 + d)
      | _ \<Rightarrow> None)"

text \<open>The character after a backslash, other than \<open>u\<close>, and the code unit it denotes.\<close>

definition escape_unit :: "char \<Rightarrow> nat option" where
  "escape_unit c =
     map_of [(CHR 0x22, 0x22), (CHR 0x5C, 0x5C), (CHR ''/'', 0x2F), (CHR ''b'', 0x08),
             (CHR ''f'', 0x0C), (CHR ''n'', 0x0A), (CHR ''r'', 0x0D), (CHR ''t'', 0x09)] c"

text \<open>
  The characters of a string after its opening quote, up to the closing quote. A control
  character (below \<open>0x20\<close>) must be escaped.
\<close>

fun parse_chars :: "string \<Rightarrow> (units \<times> string) option" where
  "parse_chars [] = None"
| "parse_chars (c # cs) =
     (if c = CHR 0x22 then Some ([], cs)
      else if c = CHR 0x5C then
        (case cs of
           [] \<Rightarrow> None
         | e # es \<Rightarrow>
             if e = CHR ''u'' then
               (case hex4 (take 4 es) of
                  None \<Rightarrow> None
                | Some u \<Rightarrow> map_option (apfst ((#) u)) (parse_chars (drop 4 es)))
             else
               (case escape_unit e of
                  None \<Rightarrow> None
                | Some u \<Rightarrow> map_option (apfst ((#) u)) (parse_chars es)))
      else if (of_char c :: nat) < 0x20 then None
      else map_option (apfst ((#) (of_char c))) (parse_chars cs))"

definition digits1 :: "string \<Rightarrow> (string \<times> string) option" where
  "digits1 s =
     (let ds = takeWhile is_digit s
      in if ds = [] then None else Some (ds, dropWhile is_digit s))"

definition parse_int_part :: "string \<Rightarrow> (string \<times> string) option" where
  "parse_int_part s =
     (case s of
        [] \<Rightarrow> None
      | c # cs \<Rightarrow>
          if c = CHR ''0'' then Some (''0'', cs)
          else if is_digit c then digits1 s
          else None)"

definition parse_frac :: "string \<Rightarrow> (string \<times> string) option" where
  "parse_frac s =
     (case s of
        [] \<Rightarrow> Some ([], s)
      | c # cs \<Rightarrow>
          if c = CHR ''.'' then map_option (apfst ((#) c)) (digits1 cs) else Some ([], s))"

definition parse_exp :: "string \<Rightarrow> (string \<times> string) option" where
  "parse_exp s =
     (case s of
        [] \<Rightarrow> Some ([], s)
      | c # cs \<Rightarrow>
          if c = CHR ''e'' \<or> c = CHR ''E'' then
            (case cs of
               [] \<Rightarrow> None
             | d # ds \<Rightarrow>
                 if d = CHR ''+'' \<or> d = CHR ''-''
                 then map_option (apfst (\<lambda>x. c # d # x)) (digits1 ds)
                 else map_option (apfst ((#) c)) (digits1 cs))
          else Some ([], s))"

definition parse_number :: "string \<Rightarrow> (string \<times> string) option" where
  "parse_number s =
     (let (sign, s1) = (if startsWith s ''-'' then (''-'', tl s) else ([], s)) in
      case parse_int_part s1 of
        None \<Rightarrow> None
      | Some (i, s2) \<Rightarrow>
          (case parse_frac s2 of
             None \<Rightarrow> None
           | Some (f, s3) \<Rightarrow>
               (case parse_exp s3 of
                  None \<Rightarrow> None
                | Some (x, s4) \<Rightarrow> Some (sign @ i @ f @ x, s4))))"

text \<open>
  Values, the elements of an array after \<open>[\<close> and the members of an object after \<open>{\<close>.
  The first argument bounds the number of nested calls; every call that comes back with a
  result has read at least one character, so the length of the text plus one is enough.
\<close>

fun parse_value :: "nat \<Rightarrow> string \<Rightarrow> (json \<times> string) option"
  and parse_elements :: "nat \<Rightarrow> json list \<Rightarrow> string \<Rightarrow> (json \<times> string) option"
  and parse_members :: "nat \<Rightarrow> (units \<times> json) list \<Rightarrow> string \<Rightarrow> (json \<times> string) option"
where
  "parse_value 0 s = None"
| "parse_value (Suc n) s =
     (let t = skip_ws s in
      if startsWith t ''null'' then Some (JNull, drop 4 t)
      else if startsWith t ''true'' then Some (JBool True, drop 4 t)
      else if startsWith t ''false'' then Some (JBool False, drop 5 t)
      else
        (case t of
           [] \<Rightarrow> None
         | c # cs \<Rightarrow>
             if c = CHR 0x22 then map_option (apfst JString) (parse_chars cs)
             else if c = CHR ''['' then
               (let u = skip_ws cs
                in if startsWith u '']'' then Some (JArray [], tl u) else parse_elements n [] u)
             else if c = CHR ''{'' then
               (let u = skip_ws cs
                in if startsWith u ''}'' then Some (JObject [], tl u) else parse_members n [] u)
             else map_option (apfst JNumber) (parse_number t)))"
| "parse_elements 0 acc s = None"
| "parse_elements (Suc n) acc s =
     (case parse_value n s of
        None \<Rightarrow> None
      | Some (v, r) \<Rightarrow>
          (case skip_ws r of
             [] \<Rightarrow> None
           | c # cs \<Rightarrow>
               if c = CHR '','' then parse_elements n (acc @ [v]) cs
               else if c = CHR '']'' then Some (JArray (acc @ [v]), cs)
               else None))"
| "parse_members 0 acc s = None"
| "parse_members (Suc n) acc s =
     (case skip_ws s of
        [] \<Rightarrow> None
      | q # qs \<Rightarrow>
          if q \<noteq> CHR 0x22 then None
          else
            (case parse_chars qs of
               None \<Rightarrow> None
             | Some (k, r) \<Rightarrow>
                 (case skip_ws r of
                    [] \<Rightarrow> None
                  | d # ds \<Rightarrow>
                      if d \<noteq> CHR '':'' then None
                      else
                        (case parse_value n ds of
                           None \<Rightarrow> None
                         | Some (v, r2) \<Rightarrow>
                             (case skip_ws r2 of
                                [] \<Rightarrow> None
                              | c # cs \<Rightarrow>
                                  if c = CHR '','' then parse_members n (acc @ [(k, v)]) cs
                                  else if c = CHR ''}'' then Some (JObject (acc @ [(k, v)]), cs)
                                  else None)))))"

text \<open>A JSON text is one value between white space; anything else is a \<^verbatim>\<open>SyntaxError\<close>.\<close>

definition JSON_parse :: "string \<Rightarrow> error + json" where
  "JSON_parse text =
     (case parse_value (Suc (length text)) text of
        None \<Rightarrow> Inl SyntaxError
      | Some (v, r) \<Rightarrow> if skip_ws r = [] then Inr v else Inl SyntaxError)"

text \<open>
  \<^verbatim>\<open>v.k\<close> for a parsed value \<^verbatim>\<open>v\<close> and a key \<^verbatim>\<open>k\<close> that names no built-in property
  (the guard reads \<^verbatim>\<open>isAdmin\<close> and \<^verbatim>\<open>role\<close>): reading a property of \<^verbatim>\<open>null\<close> throws a
  \<^verbatim>\<open>TypeError\<close>; an object gives the value of the last field with that key, as
  \<^verbatim>\<open>JSON.parse\<close> lets a later duplicate overwrite an earlier one; everything else gives
  \<^verbatim>\<open>undefined\<close>, here \<^term>\<open>None\<close>.
\<close>

fun get_property :: "json \<Rightarrow> units \<Rightarrow> error + json option" where
  "get_property JNull k = Inl TypeError"
| "get_property (JObject kvs) k = Inr (map_of (rev kvs) k)"
| "get_property v k = Inr None"

text \<open>\<^verbatim>\<open>String(v)\<close> for a string or \<^verbatim>\<open>null\<close>, as a template literal and \<^verbatim>\<open>JSON.parse\<close> apply it.\<close>

definition ToString :: "string option \<Rightarrow> string" where
  "ToString v = (case v of None \<Rightarrow> ''null'' | Some s \<Rightarrow> s)"

section \<open>components/ProtectedRoute.jsx\<close>

text \<open>
  What the component returns: \<^verbatim>\<open><Navigate to=... replace />\<close>, a redirect, or the
  protected \<^verbatim>\<open>element\<close> itself, which lets the view render.
\<close>

datatype decision = Navigate string | Element

text \<open>
  The body of the \<^verbatim>\<open>try\<close> block up to the value of \<^verbatim>\<open>isUserAdmin\<close>:
  \<^verbatim>\<open>
  const userData = JSON.parse(user);
  const isUserAdmin = userData.isAdmin === true || userData.role === 'admin';
  \<close>
  \<^verbatim>\<open>||\<close> reads \<^verbatim>\<open>userData.role\<close> only when the left operand is false.
\<close>

definition isUserAdmin :: "(string \<Rightarrow> error + json) \<Rightarrow> string option \<Rightarrow> error + bool" where
  "isUserAdmin parse user =
     (case parse (ToString user) of
        Inl e \<Rightarrow> Inl e
      | Inr userData \<Rightarrow>
          (case get_property userData (utf16 ''isAdmin'') of
             Inl e \<Rightarrow> Inl e
           | Inr flag \<Rightarrow>
               if flag = Some (JBool True) then Inr True
               else
                 (case get_property userData (utf16 ''role'') of
                    Inl e \<Rightarrow> Inl e
                  | Inr role \<Rightarrow> Inr (role = Some (JString (utf16 ''admin''))))))"

text \<open>
  The component. \<^verbatim>\<open>localStorage\<close> is a map from keys to strings, \<^verbatim>\<open>getItem\<close> of a missing
  key being \<^verbatim>\<open>null\<close>. The property \<^verbatim>\<open>isAdmin\<close> of the route (default \<^verbatim>\<open>false\<close>) says
  whether the route is an admin route. An exception in the \<^verbatim>\<open>try\<close> block is caught and
  answered with the redirect to the login page.
\<close>

definition ProtectedRoute ::
  "(string \<Rightarrow> error + json) \<Rightarrow> (string \<rightharpoonup> string) \<Rightarrow> bool \<Rightarrow> decision" where
  "ProtectedRoute parse localStorage isAdmin =
     (let token = localStorage ''access_token'';
          user = localStorage ''user''
      in if falsy token \<or> falsy user then Navigate ''/login''
         else if isAdmin then
           (case isUserAdmin parse user of
              Inl e \<Rightarrow> Navigate ''/login''
            | Inr admin \<Rightarrow> if \<not> admin then Navigate ''/dashboard'' else Element)
         else Element)"

section \<open>The application aggregator\<close>

text \<open>
  \<^verbatim>\<open>getUserApplications\<close> imports \<^verbatim>\<open>apiRequest\<close> and \<^verbatim>\<open>getAuthToken\<close> from a module that is
  not part of the sources at hand, so both are arguments here. \<^verbatim>\<open>getAuthToken\<close> reads the
  surroundings \<open>'w\<close> and gives a token, which may be \<^verbatim>\<open>null\<close>, or throws; \<^verbatim>\<open>apiRequest\<close>
  takes the request, may change the surroundings (it is the only way to the network) and
  resolves to a response or throws.
\<close>

record request =
  url :: string
  http_method :: string
  headers :: "(string \<times> string) list"

text \<open>
  \<^verbatim>\<open>
  try {
    const response = await apiRequest(`${API_BASE_URL}/applications`, {
      method: 'GET',
      headers: { 'Authorization': `Bearer ${getAuthToken()}`,
                 'Content-Type': 'application/json' } });
    return response;
  } catch (error) { console.error(...); throw error; }
  \<close>
  with \<^verbatim>\<open>API_BASE_URL = API_ENDPOINTS.dashboard\<close> of config/api.js. The options object,
  and with it \<^verbatim>\<open>getAuthToken()\<close>, is evaluated before the call. The \<^verbatim>\<open>catch\<close> block
  writes to the console and throws the same error again.
\<close>

definition applications_request :: "env \<Rightarrow> string option \<Rightarrow> request" where
  "applications_request e token =
     \<lparr>url = (API_ROOT e @ ''/api/dashboard'') @ ''/applications'',
      http_method = ''GET'',
      headers = [(''Authorization'', ''Bearer '' @ ToString token),
                 (''Content-Type'', ''application/json'')]\<rparr>"

definition getUserApplications ::
  "(request \<Rightarrow> 'w \<Rightarrow> ('e + 'r) \<times> 'w) \<Rightarrow> ('w \<Rightarrow> 'e + string option) \<Rightarrow> env \<Rightarrow> 'w
     \<Rightarrow> ('e + 'r) \<times> 'w" where
  "getUserApplications apiRequest getAuthToken e w =
     (case getAuthToken w of
        Inl error \<Rightarrow> (Inl error, w)
      | Inr token \<Rightarrow>
          (case apiRequest (applications_request e token) w of
             (Inr response, w') \<Rightarrow> (Inr response, w')
           | (Inl error, w') \<Rightarrow> (Inl error, w')))"

section \<open>Facts about the helpers\<close>

lemma startsWith_Nil: "startsWith s [] = True"
  by (simp add: startsWith_def)

lemma startsWith_Cons_Cons: "startsWith (c # s) (d # p) = (c = d \<and> startsWith s p)"
  by (auto simp: startsWith_def)

lemma startsWith_Nil_Cons: "startsWith [] (d # p) = False"
  by (simp add: startsWith_def)

lemmas startsWith_simps = startsWith_Nil startsWith_Cons_Cons startsWith_Nil_Cons

lemma startsWith_append: "startsWith b p \<Longrightarrow> startsWith (b @ s) p"
  by (auto simp: startsWith_def prefix_def)

lemma or_else_simps:
  "or_else None d = d"
  "or_else (Some []) d = d"
  "or_else (Some (c # cs)) d = c # cs"
  by (simp_all add: or_else_def)

lemma falsy_simps:
  "falsy None = True"
  "falsy (Some []) = True"
  "falsy (Some (c # cs)) = False"
  by (simp_all add: falsy_def)

section \<open>The endpoint table and the WebSocket endpoint\<close>

lemma API_ROOT_simps:
  "API_ROOT None = []"
  "API_ROOT (Some []) = []"
  "API_ROOT (Some (c # cs)) = c # cs"
  by (simp_all add: API_ROOT_def or_else_simps)

text \<open>Every entry of the table is the resolved origin followed by a path under \<open>/api/\<close>.\<close>

lemma API_ENDPOINTS_shape:
  assumes "(k, u) \<in> set (API_ENDPOINTS e)"
  shows "\<exists>p. u = API_ROOT e @ ''/api/'' @ p"
  using assms unfolding API_ENDPOINTS_def by auto



text \<open>
  \<^verbatim>\<open>getWebSocketUrl\<close> has a fallback of its own: whenever \<^verbatim>\<open>API_ROOT\<close> is empty, be the
  variable unset or set to the empty string, it starts from \<open>http://localhost:8000\<close>.
\<close>

lemma getWebSocketUrl_fallback:
  assumes "API_ROOT e = []"
  shows "getWebSocketUrl e = ''ws://localhost:8000''"
  by (simp add: getWebSocketUrl_def assms or_else_simps replace_http_ws_def startsWith_simps)

lemma replace_http_ws_https: "replace_http_ws (''https'' @ s) = ''wss'' @ s"
  by (simp add: replace_http_ws_def startsWith_simps)

lemma replace_http_ws_http: "replace_http_ws (''http'' @ s) = ''ws'' @ s"
  by (simp add: replace_http_ws_def startsWith_simps)

text \<open>An override that starts with \<open>http\<close> is taken as it is, with \<open>ws\<close> in place of \<open>http\<close>.\<close>

lemma getWebSocketUrl_http: "getWebSocketUrl (Some (''http'' @ s)) = ''ws'' @ s"
  by (simp add: getWebSocketUrl_def API_ROOT_simps or_else_simps replace_http_ws_def
      startsWith_simps)

text \<open>
  Claim C8. With the origin override \<open>https://api.example.com\<close> the admin-dashboard
  WebSocket endpoint is exactly \<open>wss://api.example.com/api/admin/ws/dashboard\<close>: the
  leading \<open>http\<close> of the configured origin is replaced by \<open>ws\<close>, so \<open>https\<close> becomes
  \<open>wss\<close>.
\<close>

theorem ws_endpoint_https_override:
  "WS_ENDPOINTS (Some ''https://api.example.com'') =
     [(''adminDashboard'', ''wss://api.example.com/api/admin/ws/dashboard'')]"
  by (simp add: WS_ENDPOINTS_def getWebSocketUrl_def API_ROOT_def or_else_def
      replace_http_ws_def startsWith_def)

text \<open>
  Claim C1, as amended. With the override unset, \<^verbatim>\<open>API_BASE_URL\<close> of both versions of
  api.config.js is the local-development default \<open>http://localhost:8000\<close>, and the
  WebSocket origin is that default with its leading \<open>http\<close> replaced by \<open>ws\<close>. The
  endpoint table of config/api.js is not built on that default: its origin
  \<^verbatim>\<open>API_ROOT\<close> is the empty string, so every entry is a path that starts with \<open>/api/\<close>.
\<close>

theorem unset_origin:
  "API_BASE_URL_strict None = ''http://localhost:8000'' \<and>
   API_BASE_URL_lax None = ''http://localhost:8000'' \<and>
   getWebSocketUrl None = replace_http_ws ''http://localhost:8000'' \<and>
   getWebSocketUrl None = ''ws://localhost:8000'' \<and>
   API_ROOT None = [] \<and>
   (\<forall>(k, u) \<in> set (API_ENDPOINTS None). startsWith u ''/api/'')"
proof -
  have "\<forall>(k, u) \<in> set (API_ENDPOINTS None). startsWith u ''/api/''"
    using API_ENDPOINTS_shape [of _ _ None]
    by (fastforce simp: API_ROOT_simps startsWith_simps)
  moreover have "replace_http_ws ''http://localhost:8000'' = ''ws://localhost:8000''"
    by (simp add: replace_http_ws_def startsWith_simps)
  ultimately show ?thesis
    by (simp add: API_BASE_URL_strict_def API_BASE_URL_lax_def or_else_simps
        getWebSocketUrl_fallback API_ROOT_simps)
qed

theorem unset_origin_witness:
  "(''dashboard'', ''/api/dashboard'') \<in> set (API_ENDPOINTS None) \<and>
   startsWith ''/api/dashboard'' ''/api/''"
proof -
  have "(''dashboard'', ''/api/dashboard'') \<in> set (API_ENDPOINTS None)"
    by (simp add: API_ENDPOINTS_def API_ROOT_simps)
  with unset_origin show ?thesis by blast
qed

text \<open>
  The claim as it was stated fails on config/api.js: with the override unset the origin
  of the table is not \<open>http://localhost:8000\<close>, and the \<open>auth\<close> endpoint is \<open>/api/auth\<close>.
\<close>

theorem unset_origin_counterexample:
  "API_ROOT None \<noteq> ''http://localhost:8000'' \<and>
   map_of (API_ENDPOINTS None) ''auth'' = Some ''/api/auth'' \<and>
   \<not> startsWith ''/api/auth'' ''http://localhost:8000''"
  by (simp add: API_ENDPOINTS_def API_ROOT_simps startsWith_simps)




section \<open>Asset URLs\<close>

lemma getAssetUrl_absent: "falsy path \<Longrightarrow> getAssetUrl base path = []"
  by (auto simp: getAssetUrl_def falsy_def split: option.splits)

lemma getAssetUrl_absolute:
  assumes "startsWith p ''http://'' \<or> startsWith p ''https://''"
  shows "getAssetUrl base (Some p) = p"
  using assms by (auto simp: getAssetUrl_def startsWith_simps)

lemma getAssetUrl_relative:
  assumes "p \<noteq> []" "\<not> startsWith p ''http://''" "\<not> startsWith p ''https://''"
  shows "getAssetUrl base (Some p) = base @ (if startsWith p ''/'' then p else ''/'' @ p)"
  using assms by (simp add: getAssetUrl_def)

text \<open>
  A second application leaves the result alone when the base is empty (the result then
  starts with a slash and is kept as it is) or starts with \<open>http://\<close> or \<open>https://\<close>
  (the result is then taken for a full URL).
\<close>

lemma getAssetUrl_idem_base:
  assumes "base = [] \<or> startsWith base ''http://'' \<or> startsWith base ''https://''"
  shows "getAssetUrl base (Some (getAssetUrl base path)) = getAssetUrl base path"
proof (cases "falsy path")
  case True
  then show ?thesis by (simp add: getAssetUrl_absent falsy_def)
next
  case False
  then obtain p where p: "path = Some p" "p \<noteq> []"
    by (auto simp: falsy_def split: option.splits)
  show ?thesis
  proof (cases "startsWith p ''http://'' \<or> startsWith p ''https://''")
    case True
    then show ?thesis by (simp add: p getAssetUrl_absolute)
  next
    case rel: False
    define q where "q = (if startsWith p ''/'' then p else ''/'' @ p)"
    have q: "startsWith q ''/''" "q \<noteq> []"
      using p by (auto simp: q_def startsWith_simps)
    have r: "getAssetUrl base path = base @ q"
      using rel p by (simp add: getAssetUrl_relative q_def)
    from assms show ?thesis
    proof
      assume b: "base = []"
      have "\<not> startsWith q ''http://''" "\<not> startsWith q ''https://''"
        using q by (cases q; simp add: startsWith_simps)+
      with q have "getAssetUrl base (Some (base @ q)) = base @ q"
        by (simp add: b getAssetUrl_relative)
      then show ?thesis by (simp only: r)
    next
      assume "startsWith base ''http://'' \<or> startsWith base ''https://''"
      then have "startsWith (base @ q) ''http://'' \<or> startsWith (base @ q) ''https://''"
        by (auto intro: startsWith_append)
      then show ?thesis by (simp add: r getAssetUrl_absolute)
    qed
  qed
qed

text \<open>
  Claim C9. In both versions and for every value of the override, \<^verbatim>\<open>getAssetUrl\<close> of the
  empty string is the empty string, and an input that starts with \<open>http://\<close> or
  \<open>https://\<close> comes back unchanged.
\<close>

theorem getAssetUrl_empty_and_absolute:
  "getAssetUrl_strict e (Some '''') = '''' \<and> getAssetUrl_lax e (Some '''') = '''' \<and>
   (startsWith p ''http://'' \<or> startsWith p ''https://'' \<longrightarrow>
      getAssetUrl_strict e (Some p) = p \<and> getAssetUrl_lax e (Some p) = p)"
  by (simp add: getAssetUrl_strict_def getAssetUrl_lax_def getAssetUrl_absolute
      getAssetUrl_absent falsy_def)

theorem getAssetUrl_empty_and_absolute_witness:
  "startsWith ''https://cdn/x.png'' ''https://'' \<and>
   getAssetUrl_strict (Some '''') (Some ''https://cdn/x.png'') = ''https://cdn/x.png'' \<and>
   getAssetUrl_lax None (Some ''https://cdn/x.png'') = ''https://cdn/x.png''"
proof -
  have "startsWith ''https://cdn/x.png'' ''https://''"
    by (simp add: startsWith_simps)
  with getAssetUrl_empty_and_absolute [of "Some ''''" "''https://cdn/x.png''"]
    getAssetUrl_empty_and_absolute [of None "''https://cdn/x.png''"]
  show ?thesis by blast
qed

text \<open>
  Claim C4, as amended. \<^verbatim>\<open>getAssetUrl\<close> is idempotent, for every path (absent ones
  included) and in both versions, whenever the override is unset, is the empty string or
  starts with \<open>http://\<close> or \<open>https://\<close>; the module's \<^verbatim>\<open>API_BASE_URL\<close> is then the empty
  string or starts with \<open>http://\<close> or \<open>https://\<close>.
\<close>

theorem getAssetUrl_idempotent:
  assumes "\<forall>u. e = Some u \<longrightarrow> u = [] \<or> startsWith u ''http://'' \<or> startsWith u ''https://''"
  shows "getAssetUrl_strict e (Some (getAssetUrl_strict e x)) = getAssetUrl_strict e x \<and>
         getAssetUrl_lax e (Some (getAssetUrl_lax e x)) = getAssetUrl_lax e x"
proof -
  have strict: "API_BASE_URL_strict e = [] \<or> startsWith (API_BASE_URL_strict e) ''http://''
      \<or> startsWith (API_BASE_URL_strict e) ''https://''"
    using assms by (cases e) (simp_all add: API_BASE_URL_strict_def startsWith_simps)
  have lax: "API_BASE_URL_lax e = [] \<or> startsWith (API_BASE_URL_lax e) ''http://''
      \<or> startsWith (API_BASE_URL_lax e) ''https://''"
  proof (cases e)
    case None
    then show ?thesis by (simp add: API_BASE_URL_lax_def or_else_simps startsWith_simps)
  next
    case (Some u)
    with assms show ?thesis
      by (cases u) (auto simp: API_BASE_URL_lax_def or_else_simps startsWith_simps)
  qed
  show ?thesis
    unfolding getAssetUrl_strict_def getAssetUrl_lax_def
    using getAssetUrl_idem_base [OF strict] getAssetUrl_idem_base [OF lax] by simp
qed

theorem getAssetUrl_idempotent_witness:
  "getAssetUrl_strict (Some '''') (Some ''uploads/a.png'') = ''/uploads/a.png'' \<and>
   getAssetUrl_strict (Some '''') (Some (getAssetUrl_strict (Some '''') (Some ''uploads/a.png'')))
     = ''/uploads/a.png'' \<and>
   getAssetUrl_lax (Some '''') (Some ''uploads/a.png'') = ''http://localhost:8000/uploads/a.png'' \<and>
   getAssetUrl_lax (Some '''') (Some (getAssetUrl_lax (Some '''') (Some ''uploads/a.png'')))
     = ''http://localhost:8000/uploads/a.png''"
proof -
  have h: "\<forall>u. Some '''' = Some u \<longrightarrow>
      u = [] \<or> startsWith u ''http://'' \<or> startsWith u ''https://''"
    by simp
  have v: "getAssetUrl_strict (Some '''') (Some ''uploads/a.png'') = ''/uploads/a.png''"
    "getAssetUrl_lax (Some '''') (Some ''uploads/a.png'') = ''http://localhost:8000/uploads/a.png''"
    by (simp_all add: getAssetUrl_strict_def getAssetUrl_lax_def API_BASE_URL_strict_def
        API_BASE_URL_lax_def or_else_simps getAssetUrl_def startsWith_simps)
  from getAssetUrl_idempotent [OF h, of "Some ''uploads/a.png''"]
  have "getAssetUrl_strict (Some '''') (Some (getAssetUrl_strict (Some '''') (Some ''uploads/a.png'')))
          = getAssetUrl_strict (Some '''') (Some ''uploads/a.png'')"
    and "getAssetUrl_lax (Some '''') (Some (getAssetUrl_lax (Some '''') (Some ''uploads/a.png'')))
          = getAssetUrl_lax (Some '''') (Some ''uploads/a.png'')"
    by blast+
  with v show ?thesis by (simp only: simp_thms)
qed

text \<open>
  For another base the claim as it was stated fails: with the override \<open>/backend\<close> the
  second application puts the base in front once more.
\<close>

theorem getAssetUrl_idempotent_counterexample:
  "getAssetUrl_strict (Some ''/backend'') (Some ''logo.png'') = ''/backend/logo.png'' \<and>
   getAssetUrl_strict (Some ''/backend'')
       (Some (getAssetUrl_strict (Some ''/backend'') (Some ''logo.png'')))
     = ''/backend/backend/logo.png'' \<and>
   getAssetUrl_strict (Some ''/backend'')
       (Some (getAssetUrl_strict (Some ''/backend'') (Some ''logo.png'')))
     \<noteq> getAssetUrl_strict (Some ''/backend'') (Some ''logo.png'') \<and>
   getAssetUrl_lax (Some ''/backend'')
       (Some (getAssetUrl_lax (Some ''/backend'') (Some ''logo.png'')))
     \<noteq> getAssetUrl_lax (Some ''/backend'') (Some ''logo.png'')"
  by (simp add: getAssetUrl_strict_def getAssetUrl_lax_def API_BASE_URL_strict_def
      API_BASE_URL_lax_def or_else_simps getAssetUrl_def startsWith_simps)

section \<open>The access guard\<close>

lemma ProtectedRoute_falsy:
  assumes "falsy (localStorage ''access_token'') \<or> falsy (localStorage ''user'')"
  shows "ProtectedRoute parse localStorage isAdmin = Navigate ''/login''"
  using assms by (simp add: ProtectedRoute_def Let_def)

text \<open>On a route that is not an admin route the stored profile is never parsed.\<close>

lemma ProtectedRoute_plain:
  assumes "\<not> falsy (localStorage ''access_token'')" "\<not> falsy (localStorage ''user'')"
  shows "ProtectedRoute parse localStorage False = Element"
  using assms by (simp add: ProtectedRoute_def Let_def)

lemma ProtectedRoute_admin:
  assumes "\<not> falsy (localStorage ''access_token'')" "\<not> falsy (localStorage ''user'')"
  shows "ProtectedRoute parse localStorage True =
           (case isUserAdmin parse (localStorage ''user'') of
              Inl e \<Rightarrow> Navigate ''/login''
            | Inr admin \<Rightarrow> if admin then Element else Navigate ''/dashboard'')"
  using assms by (simp add: ProtectedRoute_def Let_def split: sum.splits)

lemma isUserAdmin_error:
  assumes "parse user = Inl err"
  shows "isUserAdmin parse (Some user) = Inl err"
  using assms by (simp add: isUserAdmin_def ToString_def)

text \<open>The text \<open>null\<close> is valid JSON, but reading a property of its value throws.\<close>

lemma isUserAdmin_null:
  assumes "parse user = Inr JNull"
  shows "isUserAdmin parse (Some user) = Inl TypeError"
  using assms by (simp add: isUserAdmin_def ToString_def)

lemma isUserAdmin_object:
  assumes "parse user = Inr (JObject members)"
  shows "isUserAdmin parse (Some user) =
           Inr (get_property (JObject members) (utf16 ''isAdmin'') = Inr (Some (JBool True)) \<or>
                get_property (JObject members) (utf16 ''role'')
                  = Inr (Some (JString (utf16 ''admin''))))"
  using assms by (simp add: isUserAdmin_def ToString_def)

text \<open>The guard has three answers, and gives one of them whatever is stored.\<close>

lemma ProtectedRoute_range:
  "ProtectedRoute parse localStorage isAdmin
     \<in> {Navigate ''/login'', Navigate ''/dashboard'', Element}"
  by (simp add: ProtectedRoute_def Let_def split: sum.splits)

lemma ProtectedRoute_null_profile:
  assumes "localStorage ''access_token'' = Some token" "token \<noteq> []"
    and "localStorage ''user'' = Some user" "user \<noteq> []"
    and "parse user = Inr JNull"
  shows "ProtectedRoute parse localStorage True = Navigate ''/login''"
proof -
  have "\<not> falsy (localStorage ''access_token'')" "\<not> falsy (localStorage ''user'')"
    using assms(1-4) by (simp_all add: falsy_def)
  then show ?thesis
    by (simp add: ProtectedRoute_admin assms(3) isUserAdmin_null [of parse user, OF assms(5)])
qed

text \<open>The reference parser on the profile texts used below.\<close>

lemma parse_not_json: "JSON_parse ''{not json'' = Inl SyntaxError"
  by code_simp

lemma parse_admin_profile:
  \<open>JSON_parse ''{"role":"admin","isAdmin":true}'' =
     Inr (JObject [(utf16 ''role'', JString (utf16 ''admin'')), (utf16 ''isAdmin'', JBool True)])\<close>
  by code_simp

lemma parse_role_admin:
  \<open>JSON_parse ''{"role":"admin"}'' = Inr (JObject [(utf16 ''role'', JString (utf16 ''admin''))])\<close>
  by code_simp

lemma parse_role_user:
  \<open>JSON_parse ''{"role":"user"}'' = Inr (JObject [(utf16 ''role'', JString (utf16 ''user''))])\<close>
  by code_simp

lemma parse_flag_false_role_admin:
  \<open>JSON_parse ''{"isAdmin":false,"role":"admin"}'' =
     Inr (JObject [(utf16 ''isAdmin'', JBool False), (utf16 ''role'', JString (utf16 ''admin''))])\<close>
  by code_simp

lemma parse_flag_true:
  \<open>JSON_parse ''{"isAdmin":true,"role":"user"}'' =
     Inr (JObject [(utf16 ''isAdmin'', JBool True), (utf16 ''role'', JString (utf16 ''user''))])\<close>
  by code_simp

lemma parse_flag_string:
  \<open>JSON_parse ''{"isAdmin":"true","role":"user"}'' =
     Inr (JObject [(utf16 ''isAdmin'', JString (utf16 ''true'')),
                   (utf16 ''role'', JString (utf16 ''user''))])\<close>
  by code_simp

lemma parse_flag_number:
  \<open>JSON_parse ''{"isAdmin":1,"role":"user"}'' =
     Inr (JObject [(utf16 ''isAdmin'', JNumber ''1''), (utf16 ''role'', JString (utf16 ''user''))])\<close>
  by code_simp

text \<open>
  Claim C6. When the stored token is \<^verbatim>\<open>null\<close> (no item under the key), the guard
  answers with the redirect to the login page, whatever the stored profile is and
  whether the route asks for an authenticated user or for an admin.
\<close>

theorem no_token_redirects_to_login:
  assumes "localStorage ''access_token'' = None"
  shows "ProtectedRoute parse localStorage isAdmin = Navigate ''/login''"
  using assms by (simp add: ProtectedRoute_falsy falsy_simps)

theorem no_token_redirects_to_login_witness:
  \<open>[''user'' \<mapsto> ''{"role":"admin","isAdmin":true}''] ''access_token'' = None \<and>
   ProtectedRoute JSON_parse [''user'' \<mapsto> ''{"role":"admin","isAdmin":true}''] False
     = Navigate ''/login'' \<and>
   ProtectedRoute JSON_parse [''user'' \<mapsto> ''{"role":"admin","isAdmin":true}''] True
     = Navigate ''/login''\<close>
proof -
  let ?ls = \<open>[''user'' \<mapsto> ''{"role":"admin","isAdmin":true}'']\<close>
  have h: "?ls ''access_token'' = None"
    by simp
  show ?thesis
    using h no_token_redirects_to_login [of ?ls JSON_parse False, OF h]
      no_token_redirects_to_login [of ?ls JSON_parse True, OF h]
    by (intro conjI)
qed

text \<open>
  Claim C2, as amended. For a non-empty token and a non-empty stored profile that does
  not parse, the guard answers an admin route with the redirect to the login page; on a
  route that only asks for an authenticated user it does not parse the profile and lets
  the view render.
\<close>

theorem malformed_profile:
  assumes "localStorage ''access_token'' = Some token" "token \<noteq> []"
    and "localStorage ''user'' = Some user" "user \<noteq> []"
    and "parse user = Inl err"
  shows "ProtectedRoute parse localStorage True = Navigate ''/login'' \<and>
         ProtectedRoute parse localStorage False = Element"
proof -
  have nf: "\<not> falsy (localStorage ''access_token'')" "\<not> falsy (localStorage ''user'')"
    using assms(1-4) by (simp_all add: falsy_def)
  show ?thesis
    by (simp add: ProtectedRoute_admin [OF nf] ProtectedRoute_plain [OF nf] assms(3)
        isUserAdmin_error [of parse user err, OF assms(5)])
qed

theorem malformed_profile_witness:
  "JSON_parse ''{not json'' = Inl SyntaxError \<and>
   ProtectedRoute JSON_parse [''access_token'' \<mapsto> ''t'', ''user'' \<mapsto> ''{not json''] True
     = Navigate ''/login'' \<and>
   ProtectedRoute JSON_parse [''access_token'' \<mapsto> ''t'', ''user'' \<mapsto> ''{not json''] False
     = Element"
  using malformed_profile [of "[''access_token'' \<mapsto> ''t'', ''user'' \<mapsto> ''{not json'']"
      "''t''" "''{not json''" JSON_parse SyntaxError]
  by (simp add: parse_not_json)

text \<open>
  The claim as it was stated fails at its own example: the profile text \<open>{not json\<close> is
  not JSON, yet with the token \<open>t\<close> a route that asks for an authenticated user is let
  through, while an absent session is sent to the login page.
\<close>

theorem malformed_profile_counterexample:
  "JSON_parse ''{not json'' = Inl SyntaxError \<and>
   ProtectedRoute JSON_parse [''access_token'' \<mapsto> ''t'', ''user'' \<mapsto> ''{not json''] False
     = Element \<and>
   ProtectedRoute JSON_parse Map.empty False = Navigate ''/login''"
  by (simp add: parse_not_json ProtectedRoute_def falsy_def)

text \<open>
  Claim C7. For a non-empty token and a stored profile that parses to an object, the
  guard lets an admin route render when the profile's \<^verbatim>\<open>role\<close> is the string \<open>admin\<close>,
  and answers with the redirect to the dashboard when the \<^verbatim>\<open>role\<close> is the string \<open>user\<close>
  and the profile is not elevated by its flag (\<^verbatim>\<open>isAdmin\<close> is not \<^verbatim>\<open>true\<close>).
\<close>

theorem admin_route_by_role:
  assumes "localStorage ''access_token'' = Some token" "token \<noteq> []"
    and "localStorage ''user'' = Some user" "user \<noteq> []"
    and "parse user = Inr (JObject members)"
  shows "(get_property (JObject members) (utf16 ''role'') = Inr (Some (JString (utf16 ''admin'')))
            \<longrightarrow> ProtectedRoute parse localStorage True = Element) \<and>
         (get_property (JObject members) (utf16 ''role'') = Inr (Some (JString (utf16 ''user''))) \<and>
          get_property (JObject members) (utf16 ''isAdmin'') \<noteq> Inr (Some (JBool True))
            \<longrightarrow> ProtectedRoute parse localStorage True = Navigate ''/dashboard'')"
proof -
  have nf: "\<not> falsy (localStorage ''access_token'')" "\<not> falsy (localStorage ''user'')"
    using assms(1-4) by (simp_all add: falsy_def)
  have "utf16 ''user'' \<noteq> utf16 ''admin''"
    by (simp add: utf16_def)
  then show ?thesis
    by (simp add: ProtectedRoute_admin [OF nf] assms(3)
        isUserAdmin_object [of parse user members, OF assms(5)])
qed

theorem admin_route_by_role_witness:
  \<open>ProtectedRoute JSON_parse [''access_token'' \<mapsto> ''t'', ''user'' \<mapsto> ''{"role":"admin"}''] True
     = Element \<and>
   ProtectedRoute JSON_parse [''access_token'' \<mapsto> ''t'', ''user'' \<mapsto> ''{"role":"user"}''] True
     = Navigate ''/dashboard''\<close>
proof -
  let ?a = \<open>[''access_token'' \<mapsto> ''t'', ''user'' \<mapsto> ''{"role":"admin"}'']\<close>
  let ?u = \<open>[''access_token'' \<mapsto> ''t'', ''user'' \<mapsto> ''{"role":"user"}'']\<close>
  have "ProtectedRoute JSON_parse ?a True = Element"
    using admin_route_by_role [of ?a "''t''" _ JSON_parse, OF _ _ _ _ parse_role_admin]
    by (simp add: utf16_def)
  moreover have "ProtectedRoute JSON_parse ?u True = Navigate ''/dashboard''"
    using admin_route_by_role [of ?u "''t''" _ JSON_parse, OF _ _ _ _ parse_role_user]
    by (simp add: utf16_def)
  ultimately show ?thesis by (intro conjI)
qed

text \<open>
  Claim C10. For a non-empty token and a stored profile that parses to an object, the
  guard lets an admin route render exactly when the profile's \<^verbatim>\<open>isAdmin\<close> is the boolean
  \<^verbatim>\<open>true\<close> or its \<^verbatim>\<open>role\<close> is the string \<open>admin\<close>, and answers with the redirect to the
  dashboard otherwise. So \<^verbatim>\<open>isAdmin\<close> false with the role \<open>admin\<close> is elevated, and a
  flag that is only truthy (the string \<open>true\<close>, the number \<open>1\<close>) with another role is not.
\<close>

theorem admin_route_elevation:
  assumes "localStorage ''access_token'' = Some token" "token \<noteq> []"
    and "localStorage ''user'' = Some user" "user \<noteq> []"
    and "parse user = Inr (JObject members)"
  shows "ProtectedRoute parse localStorage True =
           (if get_property (JObject members) (utf16 ''isAdmin'') = Inr (Some (JBool True)) \<or>
               get_property (JObject members) (utf16 ''role'')
                 = Inr (Some (JString (utf16 ''admin'')))
            then Element else Navigate ''/dashboard'')"
proof -
  have "\<not> falsy (localStorage ''access_token'')" "\<not> falsy (localStorage ''user'')"
    using assms(1-4) by (simp_all add: falsy_def)
  then show ?thesis
    by (simp add: ProtectedRoute_admin assms(3)
        isUserAdmin_object [of parse user members, OF assms(5)])
qed

theorem admin_route_elevation_witness:
  \<open>ProtectedRoute JSON_parse
     [''access_token'' \<mapsto> ''t'', ''user'' \<mapsto> ''{"isAdmin":false,"role":"admin"}''] True
     = Element \<and>
   ProtectedRoute JSON_parse
     [''access_token'' \<mapsto> ''t'', ''user'' \<mapsto> ''{"isAdmin":true,"role":"user"}''] True
     = Element \<and>
   ProtectedRoute JSON_parse
     [''access_token'' \<mapsto> ''t'', ''user'' \<mapsto> ''{"isAdmin":"true","role":"user"}''] True
     = Navigate ''/dashboard'' \<and>
   ProtectedRoute JSON_parse
     [''access_token'' \<mapsto> ''t'', ''user'' \<mapsto> ''{"isAdmin":1,"role":"user"}''] True
     = Navigate ''/dashboard''\<close>
proof -
  let ?a = \<open>[''access_token'' \<mapsto> ''t'', ''user'' \<mapsto> ''{"isAdmin":false,"role":"admin"}'']\<close>
  let ?b = \<open>[''access_token'' \<mapsto> ''t'', ''user'' \<mapsto> ''{"isAdmin":true,"role":"user"}'']\<close>
  let ?c = \<open>[''access_token'' \<mapsto> ''t'', ''user'' \<mapsto> ''{"isAdmin":"true","role":"user"}'']\<close>
  let ?d = \<open>[''access_token'' \<mapsto> ''t'', ''user'' \<mapsto> ''{"isAdmin":1,"role":"user"}'']\<close>
  have "ProtectedRoute JSON_parse ?a True = Element"
    using admin_route_elevation [of ?a "''t''" _ JSON_parse, OF _ _ _ _ parse_flag_false_role_admin]
    by (simp add: utf16_def)
  moreover have "ProtectedRoute JSON_parse ?b True = Element"
    using admin_route_elevation [of ?b "''t''" _ JSON_parse, OF _ _ _ _ parse_flag_true]
    by (simp add: utf16_def)
  moreover have "ProtectedRoute JSON_parse ?c True = Navigate ''/dashboard''"
    using admin_route_elevation [of ?c "''t''" _ JSON_parse, OF _ _ _ _ parse_flag_string]
    by (simp add: utf16_def)
  moreover have "ProtectedRoute JSON_parse ?d True = Navigate ''/dashboard''"
    using admin_route_elevation [of ?d "''t''" _ JSON_parse, OF _ _ _ _ parse_flag_number]
    by (simp add: utf16_def)
  ultimately show ?thesis by (intro conjI)
qed

section \<open>The application aggregator\<close>

text \<open>
  \<^verbatim>\<open>getUserApplications\<close> has no check of its own. When \<^verbatim>\<open>getAuthToken\<close> throws, the error
  is thrown on and \<^verbatim>\<open>apiRequest\<close> is not called; when it gives a token, \<^verbatim>\<open>null\<close> included,
  the outcome is that of \<^verbatim>\<open>apiRequest\<close> on the GET request for the \<open>/applications\<close> path
  under the dashboard endpoint. What a call without a token does is therefore decided by
  \<^verbatim>\<open>getAuthToken\<close> and \<^verbatim>\<open>apiRequest\<close>, whose code is not among the sources.
\<close>

lemma getUserApplications_token_error:
  assumes "getAuthToken w = Inl err"
  shows "getUserApplications apiRequest getAuthToken e w = (Inl err, w)"
  using assms by (simp add: getUserApplications_def)

lemma getUserApplications_outcome:
  assumes "getAuthToken w = Inr token"
  shows "getUserApplications apiRequest getAuthToken e w =
           apiRequest \<lparr>url = API_ROOT e @ ''/api/dashboard/applications'', http_method = ''GET'',
                       headers = [(''Authorization'', ''Bearer '' @ ToString token),
                                  (''Content-Type'', ''application/json'')]\<rparr> w"
  using assms
  by (simp add: getUserApplications_def applications_request_def
      split: prod.splits sum.splits)

end
